theory Spec2Isabelle
  imports Complex_Main
begin

section \<open>Errors and tensors\<close>

text \<open>
  Every exception the modelled Python can raise is a value. Floating-point tensors are
  idealised as lists of reals (a parameter tensor is its flattened data), integer tensors
  as lists of naturals or integers.
\<close>

datatype error =
    IndexError
  | ZeroDivisionError
  | AssertionError string
  | AttributeError
  | RuntimeError

type_synonym tensor = "real list"

section \<open>pl\_train\_moco.py: the momentum update\<close>

text \<open>
  The fields of \<open>PLLearner\<close> that \<open>momentum_update\<close> reads and writes. The projector of
  the student is a list of head modules (\<open>projector[-1]\<close> is its last module,
  \<open>projector.parameters()\<close> runs through all of them in order); every module is the list
  of its parameter tensors.
\<close>

record learner =
  student_net :: "tensor list"
  student_projector :: "tensor list list"
  teacher_net :: "tensor list"
  teacher_projector :: "tensor list"
  st_inter :: bool
  t_inter :: bool
  momentum_schedule :: "real list"
  global_step :: nat

text \<open>\<open>old_weight * m + (1 - m) * up_weight\<close> on two tensors of the same shape.\<close>

definition ema :: "real \<Rightarrow> tensor \<Rightarrow> tensor \<Rightarrow> tensor" where
  "ema m old_weight up_weight = map2 (\<lambda>old up. old * m + (1 - m) * up) old_weight up_weight"

text \<open>
  \<open>for current_params, ma_params in zip(student_params, teacher_params)\<close>: the loop stops
  at the shorter list, teacher parameters beyond it keep their data; tensors whose
  shapes differ cannot be added.
\<close>

fun ema_params :: "real \<Rightarrow> tensor list \<Rightarrow> tensor list \<Rightarrow> error + tensor list" where
  "ema_params m [] mas = Inr mas"
| "ema_params m (c # cs) [] = Inr []"
| "ema_params m (c # cs) (ma # mas) =
     (if length c \<noteq> length ma then Inl RuntimeError
      else case ema_params m cs mas of
             Inl e \<Rightarrow> Inl e
           | Inr r \<Rightarrow> Inr (ema m ma c # r))"

definition momentum_update :: "learner \<Rightarrow> error + learner" where
  "momentum_update s =
     (if global_step s \<ge> length (momentum_schedule s) then Inl IndexError
      else
        let m = momentum_schedule s ! global_step s in
        case ema_params m (student_net s) (teacher_net s) of
          Inl e \<Rightarrow> Inl e
        | Inr tn \<Rightarrow>
            (if st_inter s \<noteq> t_inter s then
               (if student_projector s = [] then Inl IndexError
                else case ema_params m (last (student_projector s)) (teacher_projector s) of
                       Inl e \<Rightarrow> Inl e
                     | Inr tp \<Rightarrow> Inr (s\<lparr>teacher_net := tn, teacher_projector := tp\<rparr>))
             else
               (case ema_params m (concat (student_projector s)) (teacher_projector s) of
                  Inl e \<Rightarrow> Inl e
                | Inr tp \<Rightarrow> Inr (s\<lparr>teacher_net := tn, teacher_projector := tp\<rparr>))))"

text \<open>
  The teacher is built as a structural copy of the student: the parameter lists that are
  zipped have the same number of tensors and the same shapes.
\<close>

definition same_shapes :: "tensor list \<Rightarrow> tensor list \<Rightarrow> bool" where
  "same_shapes cs mas = (map length cs = map length mas)"

definition projector_source :: "learner \<Rightarrow> tensor list" where
  "projector_source s =
     (if st_inter s \<noteq> t_inter s then last (student_projector s)
      else concat (student_projector s))"

definition well_formed :: "learner \<Rightarrow> bool" where
  "well_formed s =
     (global_step s < length (momentum_schedule s) \<and>
      same_shapes (student_net s) (teacher_net s) \<and>
      student_projector s \<noteq> [] \<and>
      same_shapes (projector_source s) (teacher_projector s))"

text \<open>A small learner on which the update is run below.\<close>

definition learner0 :: learner where
  "learner0 = \<lparr>student_net = [[1, 2], [3]], student_projector = [[[5]]],
               teacher_net = [[0, 4], [7]], teacher_projector = [[9]],
               st_inter = False, t_inter = False,
               momentum_schedule = [0, 1/2, 1], global_step = 1\<rparr>"

section \<open>pl\_train\_moco.py: the cross-batch InfoNCE loss\<close>

text \<open>
  A batch of embeddings is the list of its rows. A scalar float result is either a real
  or NaN (the mean over an empty batch); NaN is a value, not an exception.
\<close>

datatype float_result = Finite real | NaN

fun fmul :: "real \<Rightarrow> float_result \<Rightarrow> float_result" where
  "fmul c (Finite x) = Finite (c * x)"
| "fmul c NaN = NaN"

definition dot :: "tensor \<Rightarrow> tensor \<Rightarrow> real" where
  "dot a b = sum_list (map2 (\<lambda>x y. x * y) a b)"

definition l2norm :: "tensor \<Rightarrow> real" where
  "l2norm v = sqrt (sum_list (map (\<lambda>x. x * x) v))"

text \<open>\<open>F.normalize(x, dim=1)\<close>: every row is divided by \<open>max(norm, eps)\<close>, \<open>eps = 1e-12\<close>.\<close>

definition eps :: real where
  "eps = 1 / 10 ^ 12"

definition normalize_row :: "tensor \<Rightarrow> tensor" where
  "normalize_row v = map (\<lambda>x. x / max (l2norm v) eps) v"

definition normalize :: "tensor list \<Rightarrow> tensor list" where
  "normalize xs = map normalize_row xs"

text \<open>\<open>torch.matmul(a, b.T)\<close>: rows of unequal length cannot be multiplied.\<close>

definition matmul_T :: "tensor list \<Rightarrow> tensor list \<Rightarrow> error + tensor list" where
  "matmul_T a b =
     (if list_ex (\<lambda>x. list_ex (\<lambda>y. length x \<noteq> length y) b) a then Inl RuntimeError
      else Inr (map (\<lambda>x. map (\<lambda>y. dot x y) b) a))"

text \<open>
  \<open>nn.CrossEntropyLoss()\<close> with class-index targets and mean reduction: one target per
  row, every target a column of the logits; the loss of a row is
  \<open>log (sum_j exp l_j) - l_target\<close>.
\<close>

definition row_loss :: "tensor \<Rightarrow> nat \<Rightarrow> real" where
  "row_loss l y = ln (sum_list (map exp l)) - l ! y"

definition criterion :: "tensor list \<Rightarrow> nat list \<Rightarrow> error + float_result" where
  "criterion logits labels =
     (if length logits \<noteq> length labels then Inl RuntimeError
      else if list_ex (\<lambda>(l, y). y \<ge> length l) (zip logits labels) then Inl IndexError
      else if logits = [] then Inr NaN
      else Inr (Finite (sum_list (map2 row_loss logits labels) / real (length logits))))"

definition info_nce_loss :: "nat \<Rightarrow> tensor list \<Rightarrow> tensor list \<Rightarrow> error + float_result" where
  "info_nce_loss rank s_features t_features =
     (let batch_size = length s_features;
          labels = map (\<lambda>i. i + batch_size * rank) [0..<batch_size];
          s_features = normalize s_features;
          t_features = normalize t_features
      in case matmul_T s_features t_features of
           Inl e \<Rightarrow> Inl e
         | Inr similarity_matrix \<Rightarrow>
             let tau = 2 / 10;
                 logits = map (map (\<lambda>x. x / tau)) similarity_matrix
             in case criterion logits labels of
                  Inl e \<Rightarrow> Inl e
                | Inr loss \<Rightarrow> Inr (fmul (2 * tau) loss))"

text \<open>
  \<open>info_nce_loss_layer\<close>: \<open>batch_size /= depth\<close> is a float division;
  \<open>torch.arange(x, dtype=torch.long)\<close> with a float \<open>x\<close> has \<open>ceil x\<close> entries and
  \<open>int\<close> truncates.
\<close>

definition info_nce_loss_layer ::
  "bool \<Rightarrow> nat \<Rightarrow> tensor list \<Rightarrow> tensor list \<Rightarrow> nat option \<Rightarrow> error + float_result" where
  "info_nce_loss_layer st_inter_flag rank s_features t_features d =
     (let depth = (case d of Some d' \<Rightarrow> d' | None \<Rightarrow> if st_inter_flag then 11 else 1)
      in if depth = 0 then Inl ZeroDivisionError
         else
           let batch_size = real (length s_features) / real depth;
               part = map (\<lambda>i. i + nat \<lfloor>batch_size * real rank\<rfloor>) [0..<nat \<lceil>batch_size\<rceil>];
               labels = concat (replicate depth part);
               s_features = normalize s_features;
               t_features = normalize t_features
           in case matmul_T s_features t_features of
                Inl e \<Rightarrow> Inl e
              | Inr similarity_matrix \<Rightarrow>
                  let tau = 2 / 10;
                      logits = map (map (\<lambda>x. x / tau)) similarity_matrix
                  in case criterion logits labels of
                       Inl e \<Rightarrow> Inl e
                     | Inr loss \<Rightarrow> Inr (fmul (2 * tau) loss))"

text \<open>The temperature-scaled logits and the rank-offset labels the two functions build.\<close>

definition scaled_logits :: "tensor list \<Rightarrow> tensor list" where
  "scaled_logits similarity_matrix = map (map (\<lambda>x. x / (2 / 10))) similarity_matrix"

definition identity_labels :: "nat \<Rightarrow> nat \<Rightarrow> nat list" where
  "identity_labels rank batch_size = map (\<lambda>i. i + batch_size * rank) [0..<batch_size]"

definition layer_labels :: "nat \<Rightarrow> nat \<Rightarrow> nat \<Rightarrow> nat list" where
  "layer_labels rank n depth =
     concat (replicate depth
       (map (\<lambda>i. i + nat \<lfloor>real n / real depth * real rank\<rfloor>) [0..<nat \<lceil>real n / real depth\<rceil>]))"

section \<open>pl\_train\_simclr.py: the self-similarity InfoNCE loss\<close>














section \<open>vision\_transformer.py: shapes and construction\<close>

text \<open>
  The transformer is modelled on tensor shapes (lists of dimension sizes, naturals):
  every operation either raises or returns the shape PyTorch computes.
\<close>

type_synonym shape = "nat list"

text \<open>\<open>nn.Linear(in_features, out_features)\<close> applied to a tensor of the given shape.\<close>

definition linear :: "nat \<Rightarrow> nat \<Rightarrow> shape \<Rightarrow> error + shape" where
  "linear in_features out_features x =
     (if x = [] \<or> last x \<noteq> in_features then Inl RuntimeError
      else Inr (butlast x @ [out_features]))"

text \<open>\<open>nn.LayerNorm(dim)\<close>: the last dimension must be \<open>dim\<close>; the shape is kept.\<close>

definition layer_norm :: "nat \<Rightarrow> shape \<Rightarrow> error + shape" where
  "layer_norm d x = (if x = [] \<or> last x \<noteq> d then Inl RuntimeError else Inr x)"

record block =
  b_dim :: nat
  b_num_heads :: nat
  b_mlp_hidden :: nat

text \<open>
  \<open>Attention.forward\<close>: returns the shapes of \<open>x\<close> and of \<open>attn\<close>. The \<open>reshape\<close> to
  \<open>(B, N, 3, num_heads, C // num_heads)\<close> needs the same number of elements.
\<close>

definition attention_forward :: "block \<Rightarrow> shape \<Rightarrow> error + (shape \<times> shape)" where
  "attention_forward blk x =
     (case x of
        [B, N, C] \<Rightarrow>
          (case linear (b_dim blk) (b_dim blk * 3) x of
             Inl e \<Rightarrow> Inl e
           | Inr qkv \<Rightarrow>
               if b_num_heads blk = 0 then Inl ZeroDivisionError
               else if B * N * (C * 3) \<noteq> B * N * 3 * b_num_heads blk * (C div b_num_heads blk)
               then Inl RuntimeError
               else (case linear (b_dim blk) (b_dim blk) [B, N, C] of
                       Inl e \<Rightarrow> Inl e
                     | Inr y \<Rightarrow> Inr (y, [B, b_num_heads blk, N, N])))
      | _ \<Rightarrow> Inl RuntimeError)"

definition mlp_forward :: "block \<Rightarrow> shape \<Rightarrow> error + shape" where
  "mlp_forward blk x =
     (case linear (b_dim blk) (b_mlp_hidden blk) x of
        Inl e \<Rightarrow> Inl e
      | Inr h \<Rightarrow> linear (b_mlp_hidden blk) (b_dim blk) h)"

text \<open>
  \<open>Block.forward(x, return_attention)\<close>: it starts with \<open>self.proj = nn.Linear(2*dim, dim)\<close>.
  The residual additions are between tensors of one shape.
\<close>

definition block_forward :: "block \<Rightarrow> shape \<Rightarrow> bool \<Rightarrow> error + shape" where
  "block_forward blk x return_attention =
     (case linear (2 * b_dim blk) (b_dim blk) x of
        Inl e \<Rightarrow> Inl e
      | Inr x1 \<Rightarrow>
          (case layer_norm (b_dim blk) x1 of
             Inl e \<Rightarrow> Inl e
           | Inr n1 \<Rightarrow>
               (case attention_forward blk n1 of
                  Inl e \<Rightarrow> Inl e
                | Inr (y, attn) \<Rightarrow>
                    if return_attention then Inr attn
                    else (case layer_norm (b_dim blk) x1 of
                            Inl e \<Rightarrow> Inl e
                          | Inr n2 \<Rightarrow>
                              (case mlp_forward blk n2 of
                                 Inl e \<Rightarrow> Inl e
                               | Inr z \<Rightarrow> Inr x1)))))"

text \<open>The attributes of a constructed \<open>VisionTransformer\<close> that the forward passes read.\<close>

record vit =
  embed_dim :: nat
  patch_size :: nat
  in_chans :: nat
  blocks :: "block list"
  norms :: "nat list"
  dis_token :: bool
  pos_embed :: shape
  proj_weight_requires_grad :: bool
  proj_bias_requires_grad :: bool

text \<open>
  \<open>PatchEmbed.forward\<close>: a convolution with kernel and stride \<open>patch_size\<close>, then
  \<open>flatten(2).transpose(1, 2)\<close>.
\<close>

definition patch_embed_forward :: "vit \<Rightarrow> shape \<Rightarrow> error + shape" where
  "patch_embed_forward m x =
     (case x of
        [B, C, H, W] \<Rightarrow>
          if C \<noteq> in_chans m \<or> H < patch_size m \<or> W < patch_size m \<or> patch_size m = 0
          then Inl RuntimeError
          else Inr [B, ((H - patch_size m) div patch_size m + 1) *
                       ((W - patch_size m) div patch_size m + 1), embed_dim m]
      | _ \<Rightarrow> Inl RuntimeError)"

text \<open>\<open>a + b\<close> with broadcasting, for \<open>a\<close> of three dimensions and \<open>b\<close> of shape \<open>(1, M, E)\<close>.\<close>

definition broadcast_dim :: "nat \<Rightarrow> nat \<Rightarrow> error + nat" where
  "broadcast_dim a b =
     (if a = b then Inr a else if a = 1 then Inr b else if b = 1 then Inr a
      else Inl RuntimeError)"

fun broadcast_add :: "shape \<Rightarrow> shape \<Rightarrow> error + shape" where
  "broadcast_add [] [] = Inr []"
| "broadcast_add (a # as) (b # bs) =
     (case broadcast_dim a b of
        Inl e \<Rightarrow> Inl e
      | Inr d \<Rightarrow> (case broadcast_add as bs of Inl e \<Rightarrow> Inl e | Inr ds \<Rightarrow> Inr (d # ds)))"
| "broadcast_add _ _ = Inl RuntimeError"

definition num_token :: "vit \<Rightarrow> nat" where
  "num_token m = (if dis_token m then 2 else 1)"

text \<open>
  \<open>prepare_tokens\<close>: patch embedding, the class token (and the distillation token)
  concatenated in front along dimension 1, the position embedding added; the dropout
  keeps the shape.
\<close>

definition prepare_tokens :: "vit \<Rightarrow> shape \<Rightarrow> error + shape" where
  "prepare_tokens m x =
     (case x of
        [B, nc, w, h] \<Rightarrow>
          (case patch_embed_forward m x of
             Inl e \<Rightarrow> Inl e
           | Inr p \<Rightarrow>
               (case p of
                  [B', n, E] \<Rightarrow> broadcast_add [B', num_token m + n, E] (pos_embed m)
                | _ \<Rightarrow> Inl RuntimeError))
      | _ \<Rightarrow> Inl RuntimeError)"

text \<open>\<open>torch.cat([x, x], dim=-1)\<close> and \<open>x.mean(dim=1)\<close> on shapes.\<close>

definition cat_last :: "shape \<Rightarrow> error + shape" where
  "cat_last x = (if x = [] then Inl RuntimeError else Inr (butlast x @ [2 * last x]))"

definition mean_dim1 :: "shape \<Rightarrow> error + shape" where
  "mean_dim1 x = (case x of d0 # d1 # ds \<Rightarrow> Inr (d0 # ds) | _ \<Rightarrow> Inl IndexError)"

text \<open>The loop of \<open>forward\<close>: \<open>x = torch.cat([x, x], dim=-1); x = blk(x)\<close>.\<close>

fun run_blocks :: "block list \<Rightarrow> shape \<Rightarrow> error + shape" where
  "run_blocks [] x = Inr x"
| "run_blocks (blk # bs) x =
     (case cat_last x of
        Inl e \<Rightarrow> Inl e
      | Inr xx \<Rightarrow>
          (case block_forward blk xx False of
             Inl e \<Rightarrow> Inl e
           | Inr y \<Rightarrow> run_blocks bs y))"

text \<open>\<open>forward\<close>: \<open>self.norms[-1]\<close> raises on an empty module list.\<close>

definition vit_forward :: "vit \<Rightarrow> shape \<Rightarrow> error + shape" where
  "vit_forward m x =
     (case prepare_tokens m x of
        Inl e \<Rightarrow> Inl e
      | Inr t \<Rightarrow>
          (case run_blocks (blocks m) t of
             Inl e \<Rightarrow> Inl e
           | Inr y \<Rightarrow>
               if norms m = [] then Inl IndexError
               else (case layer_norm (last (norms m)) y of
                       Inl e \<Rightarrow> Inl e
                     | Inr z \<Rightarrow> mean_dim1 z)))"

text \<open>
  The loop of \<open>get_last_selfattention\<close>: every block but the last is called as
  \<open>blk(x)\<close>, the last as \<open>blk(x, return_attention=True)\<close>, whose value is returned; with
  no block the function falls off its end and returns \<open>None\<close>.
\<close>

fun last_selfattention_loop :: "block list \<Rightarrow> shape \<Rightarrow> error + shape option" where
  "last_selfattention_loop [] x = Inr None"
| "last_selfattention_loop [blk] x =
     (case block_forward blk x True of Inl e \<Rightarrow> Inl e | Inr attn \<Rightarrow> Inr (Some attn))"
| "last_selfattention_loop (blk # bs) x =
     (case block_forward blk x False of
        Inl e \<Rightarrow> Inl e
      | Inr y \<Rightarrow> last_selfattention_loop bs y)"

definition get_last_selfattention :: "vit \<Rightarrow> shape \<Rightarrow> error + shape option" where
  "get_last_selfattention m x =
     (case prepare_tokens m x of
        Inl e \<Rightarrow> Inl e
      | Inr t \<Rightarrow> last_selfattention_loop (blocks m) t)"

text \<open>
  The arguments of \<open>VisionTransformer.__init__\<close> that decide whether construction raises
  and what shapes it builds (sizes are naturals; the dropout rates keep their default 0).
\<close>

record vit_config =
  cfg_img_size :: "nat list"
  cfg_patch_size :: nat
  cfg_in_chans :: nat
  cfg_embed_dim :: nat
  cfg_depth :: nat
  cfg_num_heads :: nat
  cfg_mlp_ratio :: real
  cfg_qkv_bias :: bool
  cfg_qk_scale :: "real option"
  cfg_dis_token :: bool

definition sincos_message :: string where
  "sincos_message = ''Embed dimension must be divisible by 4 for 2D sin-cos position embedding''"

text \<open>
  \<open>build_2d_sincos_position_embedding\<close>: \<open>grid_size\<close> holds the floats
  \<open>img_size / patch_size\<close>, and \<open>torch.arange\<close> of a float has its ceiling many entries.
  The result is the shape of \<open>self.pos_embed\<close>.
\<close>

definition build_2d_sincos_position_embedding :: "nat \<Rightarrow> real \<Rightarrow> real \<Rightarrow> bool \<Rightarrow> error + shape" where
  "build_2d_sincos_position_embedding e h w dis =
     (let grid_w = nat \<lceil>w\<rceil>; grid_h = nat \<lceil>h\<rceil>
      in if e mod 4 \<noteq> 0 then Inl (AssertionError sincos_message)
         else
           let pos_dim = e div 4;
               pos_emb = [1, grid_w * grid_h, pos_dim + pos_dim + pos_dim + pos_dim];
               n_token = (if dis then 2 else 1)
           in if last pos_emb \<noteq> e then Inl RuntimeError
              else Inr [1, n_token + grid_w * grid_h, e])"

text \<open>
  \<open>Block.__init__\<close> with \<open>Attention.__init__\<close>: \<open>head_dim = dim // num_heads\<close> and
  \<open>qk_scale or head_dim ** -0.5\<close>; \<open>int(dim * mlp_ratio)\<close> truncates, and a negative
  layer size is refused.
\<close>

definition block_init :: "vit_config \<Rightarrow> error + block" where
  "block_init c =
     (if cfg_num_heads c = 0 then Inl ZeroDivisionError
      else if (cfg_qk_scale c = None \<or> cfg_qk_scale c = Some 0) \<and>
              cfg_embed_dim c div cfg_num_heads c = 0 then Inl ZeroDivisionError
      else if real (cfg_embed_dim c) * cfg_mlp_ratio c \<le> - 1 then Inl RuntimeError
      else Inr \<lparr>b_dim = cfg_embed_dim c, b_num_heads = cfg_num_heads c,
                b_mlp_hidden = nat \<lfloor>real (cfg_embed_dim c) * cfg_mlp_ratio c\<rfloor>\<rparr>)"

text \<open>
  The module list \<open>self.blocks\<close>: \<open>depth\<close> blocks built from the same arguments; with
  \<open>depth = 0\<close> no block is constructed.
\<close>

definition make_blocks :: "vit_config \<Rightarrow> error + block list" where
  "make_blocks c =
     (if cfg_depth c = 0 then Inr []
      else case block_init c of
             Inl e \<Rightarrow> Inl e
           | Inr b \<Rightarrow> Inr (replicate (cfg_depth c) b))"

text \<open>
  \<open>VisionTransformer.__init__\<close>, in the order of the source: the patch embedding
  (\<open>img_size[0]\<close>, \<open>img_size // patch_size\<close>), the position embedding, the blocks, the
  weight initialisation (\<open>nn.init.zeros_(m.bias)\<close> on the \<open>qkv\<close> layer, whose bias is
  \<open>None\<close> without \<open>qkv_bias\<close>), and at the end the freezing of the patch projection.
\<close>

definition vit_init :: "vit_config \<Rightarrow> error + vit" where
  "vit_init c =
     (case cfg_img_size c of
        [] \<Rightarrow> Inl IndexError
      | i # _ \<Rightarrow>
          if cfg_patch_size c = 0 then Inl ZeroDivisionError
          else
            (case build_2d_sincos_position_embedding (cfg_embed_dim c)
                    (real i / real (cfg_patch_size c)) (real i / real (cfg_patch_size c))
                    (cfg_dis_token c) of
               Inl e \<Rightarrow> Inl e
             | Inr pe \<Rightarrow>
                 (case make_blocks c of
                    Inl e \<Rightarrow> Inl e
                  | Inr bs \<Rightarrow>
                      if cfg_depth c \<noteq> 0 \<and> \<not> cfg_qkv_bias c then Inl AttributeError
                      else Inr \<lparr>embed_dim = cfg_embed_dim c,
                                patch_size = cfg_patch_size c,
                                in_chans = cfg_in_chans c,
                                blocks = bs,
                                norms = replicate (cfg_depth c) (cfg_embed_dim c),
                                dis_token = cfg_dis_token c,
                                pos_embed = pe,
                                proj_weight_requires_grad = False,
                                proj_bias_requires_grad = False\<rparr>)))"

text \<open>The number of grid positions along one side that the position embedding is built for.\<close>

definition grid :: "vit_config \<Rightarrow> nat" where
  "grid c = nat \<lceil>real (hd (cfg_img_size c)) / real (cfg_patch_size c)\<rceil>"




text \<open>The configurations of \<open>vit_small\<close> and \<open>deit_small\<close> with their default arguments.\<close>

definition vit_small :: vit_config where
  "vit_small = \<lparr>cfg_img_size = [224], cfg_patch_size = 16, cfg_in_chans = 3,
                cfg_embed_dim = 384, cfg_depth = 12, cfg_num_heads = 12, cfg_mlp_ratio = 4,
                cfg_qkv_bias = True, cfg_qk_scale = None, cfg_dis_token = False\<rparr>"

definition deit_small :: vit_config where
  "deit_small = \<lparr>cfg_img_size = [224], cfg_patch_size = 16, cfg_in_chans = 3,
                 cfg_embed_dim = 384, cfg_depth = 12, cfg_num_heads = 6, cfg_mlp_ratio = 4,
                 cfg_qkv_bias = True, cfg_qk_scale = None, cfg_dis_token = True\<rparr>"

text \<open>The model that \<open>vit_small()\<close> constructs.\<close>

definition vit_small_model :: vit where
  "vit_small_model =
     \<lparr>embed_dim = 384, patch_size = 16, in_chans = 3,
      blocks = replicate 12 \<lparr>b_dim = 384, b_num_heads = 12, b_mlp_hidden = 1536\<rparr>,
      norms = replicate 12 384, dis_token = False, pos_embed = [1, 197, 384],
      proj_weight_requires_grad = False, proj_bias_requires_grad = False\<rparr>"

section \<open>vision\_transformer.py: the values \<open>forward\<close> returns\<close>

text \<open>
  The end of \<open>forward\<close> on values: a token tensor is the list, per sample, of its token
  vectors. A block is the function its \<open>forward\<close> computes, a layer norm the function it
  applies to each token vector; \<open>e\<close> is the embedding dimension.
\<close>

type_synonym tokens = "real list list list"

definition cat_last_values :: "tokens \<Rightarrow> tokens" where
  "cat_last_values x = map (map (\<lambda>t. t @ t)) x"

definition mean_tokens :: "nat \<Rightarrow> real list list \<Rightarrow> real list" where
  "mean_tokens e xs = map (\<lambda>j. sum_list (map (\<lambda>t. t ! j) xs) / real (length xs)) [0..<e]"

fun run_blocks_values :: "(tokens \<Rightarrow> error + tokens) list \<Rightarrow> tokens \<Rightarrow> error + tokens" where
  "run_blocks_values [] x = Inr x"
| "run_blocks_values (blk # bs) x =
     (case blk (cat_last_values x) of
        Inl e \<Rightarrow> Inl e
      | Inr y \<Rightarrow> run_blocks_values bs y)"

definition forward_values ::
  "nat \<Rightarrow> (tokens \<Rightarrow> error + tokens) list \<Rightarrow> (real list \<Rightarrow> real list) list \<Rightarrow> tokens
   \<Rightarrow> error + real list list" where
  "forward_values e blks nrms x =
     (case run_blocks_values blks x of
        Inl err \<Rightarrow> Inl err
      | Inr y \<Rightarrow>
          if nrms = [] then Inl IndexError
          else Inr (map (\<lambda>sample. mean_tokens e (map (last nrms) sample)) y))"

section \<open>Properties of the momentum update\<close>

lemma ema_params_same_shapes:
  "same_shapes cs mas \<Longrightarrow> ema_params m cs mas = Inr (map2 (ema m) mas cs)"
proof (induction m cs mas rule: ema_params.induct)
  case (1 m mas)
  then show ?case by (simp add: same_shapes_def)
next
  case (2 m c cs)
  then show ?case by (simp add: same_shapes_def)
next
  case (3 m c cs ma mas)
  then show ?case by (simp add: same_shapes_def)
qed

lemma ema_one: "length old = length up \<Longrightarrow> ema 1 old up = old"
  by (induction old up rule: list_induct2) (simp_all add: ema_def)

lemma ema_zero: "length old = length up \<Longrightarrow> ema 0 old up = up"
  by (induction old up rule: list_induct2) (simp_all add: ema_def)

lemma map2_ema_one: "same_shapes cs mas \<Longrightarrow> map2 (ema 1) mas cs = mas"
proof (induction mas arbitrary: cs)
  case Nil
  then show ?case by simp
next
  case (Cons ma mas)
  then obtain c cs' where cs: "cs = c # cs'"
    by (cases cs) (auto simp: same_shapes_def)
  with Cons show ?case by (simp add: same_shapes_def ema_one)
qed

lemma map2_ema_zero: "same_shapes cs mas \<Longrightarrow> map2 (ema 0) mas cs = cs"
proof (induction mas arbitrary: cs)
  case Nil
  then show ?case by (simp add: same_shapes_def)
next
  case (Cons ma mas)
  then obtain c cs' where cs: "cs = c # cs'"
    by (cases cs) (auto simp: same_shapes_def)
  with Cons show ?case by (simp add: same_shapes_def ema_zero)
qed

lemma momentum_update_well_formed:
  assumes "well_formed s"
  shows "momentum_update s =
           Inr (s\<lparr>teacher_net :=
                     map2 (ema (momentum_schedule s ! global_step s)) (teacher_net s) (student_net s),
                   teacher_projector :=
                     map2 (ema (momentum_schedule s ! global_step s)) (teacher_projector s)
                       (projector_source s)\<rparr>)"
proof -
  from assms have step: "\<not> length (momentum_schedule s) \<le> global_step s"
    and net: "same_shapes (student_net s) (teacher_net s)"
    and ne: "student_projector s \<noteq> []"
    and proj: "same_shapes (projector_source s) (teacher_projector s)"
    by (simp_all add: well_formed_def)
  show ?thesis
  proof (cases "st_inter s \<noteq> t_inter s")
    case True
    with proj have "same_shapes (last (student_projector s)) (teacher_projector s)"
      by (simp add: projector_source_def)
    with True step net ne show ?thesis
      by (simp add: momentum_update_def Let_def ema_params_same_shapes projector_source_def)
  next
    case False
    with proj have "same_shapes (concat (student_projector s)) (teacher_projector s)"
      by (simp add: projector_source_def)
    with False step net show ?thesis
      by (simp add: momentum_update_def Let_def ema_params_same_shapes projector_source_def)
  qed
qed

text \<open>
  Claim C1. On a learner whose teacher mirrors the student and whose schedule covers the
  current global step, \<open>momentum_update\<close> returns normally and every element of every teacher
  backbone parameter becomes \<open>m * teacher + (1 - m) * student\<close>, with \<open>m\<close> the schedule's
  entry at the global step. With \<open>m = 1\<close> the teacher backbone is unchanged, with \<open>m = 0\<close>
  it is an exact copy of the student backbone.
\<close>

theorem momentum_update_teacher:
  assumes "well_formed s"
  shows "\<exists>s'. momentum_update s = Inr s' \<and>
           length (teacher_net s') = length (teacher_net s) \<and>
           (\<forall>i < length (teacher_net s). \<forall>j < length (teacher_net s ! i).
              teacher_net s' ! i ! j =
                momentum_schedule s ! global_step s * (teacher_net s ! i ! j) +
                (1 - momentum_schedule s ! global_step s) * (student_net s ! i ! j)) \<and>
           (momentum_schedule s ! global_step s = 1 \<longrightarrow> teacher_net s' = teacher_net s) \<and>
           (momentum_schedule s ! global_step s = 0 \<longrightarrow> teacher_net s' = student_net s)"
proof -
  let ?m = "momentum_schedule s ! global_step s"
  let ?s' = "s\<lparr>teacher_net := map2 (ema ?m) (teacher_net s) (student_net s),
                teacher_projector := map2 (ema ?m) (teacher_projector s) (projector_source s)\<rparr>"
  from assms have net: "same_shapes (student_net s) (teacher_net s)"
    by (simp add: well_formed_def)
  then have len: "length (student_net s) = length (teacher_net s)"
    by (auto simp: same_shapes_def dest: map_eq_imp_length_eq)
  have shape: "length (student_net s ! i) = length (teacher_net s ! i)"
    if "i < length (teacher_net s)" for i
  proof -
    from net have "map length (student_net s) ! i = map length (teacher_net s) ! i"
      by (simp add: same_shapes_def)
    with that len show ?thesis by simp
  qed
  have run: "momentum_update s = Inr ?s'"
    by (rule momentum_update_well_formed [OF assms])
  have l: "length (teacher_net ?s') = length (teacher_net s)"
    using len by simp
  have elt: "teacher_net ?s' ! i ! j = ?m * (teacher_net s ! i ! j) + (1 - ?m) * (student_net s ! i ! j)"
    if "i < length (teacher_net s)" "j < length (teacher_net s ! i)" for i j
    using that len shape [OF that(1)] by (simp add: ema_def mult.commute)
  have one: "?m = 1 \<longrightarrow> teacher_net ?s' = teacher_net s"
    using map2_ema_one [OF net] by simp
  have zero: "?m = 0 \<longrightarrow> teacher_net ?s' = student_net s"
    using map2_ema_zero [OF net] by simp
  from run l elt one zero show ?thesis by blast
qed

theorem momentum_update_teacher_witness:
  "well_formed learner0 \<and>
   (\<exists>s'. momentum_update learner0 = Inr s' \<and> teacher_net s' ! 0 ! 1 = 1/2 * 4 + (1 - 1/2) * 2)"
proof -
  have wf: "well_formed learner0"
    by (simp add: well_formed_def learner0_def same_shapes_def projector_source_def)
  from momentum_update_teacher [OF wf] obtain s' where
    run: "momentum_update learner0 = Inr s'"
    and elt: "\<forall>i < length (teacher_net learner0). \<forall>j < length (teacher_net learner0 ! i).
              teacher_net s' ! i ! j =
                momentum_schedule learner0 ! global_step learner0 * (teacher_net learner0 ! i ! j) +
                (1 - momentum_schedule learner0 ! global_step learner0) * (student_net learner0 ! i ! j)"
    by blast
  from elt have "teacher_net s' ! 0 ! 1 =
      momentum_schedule learner0 ! global_step learner0 * (teacher_net learner0 ! 0 ! 1) +
      (1 - momentum_schedule learner0 ! global_step learner0) * (student_net learner0 ! 0 ! 1)"
    by (simp add: learner0_def)
  then have "teacher_net s' ! 0 ! 1 = 1/2 * 4 + (1 - 1/2) * 2"
    by (simp add: learner0_def)
  with wf run show ?thesis by blast
qed

section \<open>Properties of the cross-batch loss\<close>

lemma fmul_two_tau: "fmul (2 * (2 / 10)) l = fmul (4 / 10) l"
  by (cases l) simp_all

text \<open>
  Claim C10. Both cross-batch loss functions return \<open>2 * tau\<close> times the cross-entropy,
  with \<open>tau = 0.2\<close>: the value is \<open>0.4\<close> times the cross-entropy of the similarity logits
  divided by \<open>0.2\<close> against the rank-offset identity labels, never the cross-entropy itself;
  an exception of the matrix product or of the criterion is passed on.
\<close>

theorem info_nce_loss_scaled:
  "info_nce_loss rank s t =
     (case matmul_T (normalize s) (normalize t) of
        Inl e \<Rightarrow> Inl e
      | Inr sim \<Rightarrow>
          (case criterion (scaled_logits sim) (identity_labels rank (length s)) of
             Inl e \<Rightarrow> Inl e
           | Inr ce \<Rightarrow> Inr (fmul (4 / 10) ce)))
   \<and>
   info_nce_loss_layer f rank s t d =
     (let depth = (case d of Some d' \<Rightarrow> d' | None \<Rightarrow> if f then 11 else 1)
      in if depth = 0 then Inl ZeroDivisionError
         else case matmul_T (normalize s) (normalize t) of
                Inl e \<Rightarrow> Inl e
              | Inr sim \<Rightarrow>
                  (case criterion (scaled_logits sim) (layer_labels rank (length s) depth) of
                     Inl e \<Rightarrow> Inl e
                   | Inr ce \<Rightarrow> Inr (fmul (4 / 10) ce)))"
proof
  show "info_nce_loss rank s t =
     (case matmul_T (normalize s) (normalize t) of
        Inl e \<Rightarrow> Inl e
      | Inr sim \<Rightarrow>
          (case criterion (scaled_logits sim) (identity_labels rank (length s)) of
             Inl e \<Rightarrow> Inl e
           | Inr ce \<Rightarrow> Inr (fmul (4 / 10) ce)))"
    unfolding info_nce_loss_def scaled_logits_def identity_labels_def Let_def fmul_two_tau
    by (simp split: sum.splits)
next
  show "info_nce_loss_layer f rank s t d =
     (let depth = (case d of Some d' \<Rightarrow> d' | None \<Rightarrow> if f then 11 else 1)
      in if depth = 0 then Inl ZeroDivisionError
         else case matmul_T (normalize s) (normalize t) of
                Inl e \<Rightarrow> Inl e
              | Inr sim \<Rightarrow>
                  (case criterion (scaled_logits sim) (layer_labels rank (length s) depth) of
                     Inl e \<Rightarrow> Inl e
                   | Inr ce \<Rightarrow> Inr (fmul (4 / 10) ce)))"
    unfolding info_nce_loss_layer_def scaled_logits_def layer_labels_def Let_def fmul_two_tau
    by (simp split: sum.splits)
qed

section \<open>Scaling the embeddings\<close>












lemma l2norm_first: "l2norm [a, 0] = \<bar>a\<bar>"
  by (simp add: l2norm_def)

lemma l2norm_second: "l2norm [0, a] = \<bar>a\<bar>"
  by (simp add: l2norm_def)












theorem info_nce_loss_scaled_witness:
  "info_nce_loss 0 [[1, 0]] [[1, 0], [0, 1]] = Inr (Finite (4 / 10 * (ln (exp 5 + 1) - 5)))"
  using info_nce_loss_scaled [of 0 "[[1, 0]]" "[[1, 0], [0, 1]]" False None]
  by (simp add: normalize_def normalize_row_def l2norm_first l2norm_second eps_def
      matmul_T_def dot_def criterion_def row_loss_def scaled_logits_def identity_labels_def)

section \<open>Construction of the transformer\<close>

lemma build_pos_ok:
  "e mod 4 = 0 \<Longrightarrow>
   build_2d_sincos_position_embedding e h w dis =
     Inr [1, (if dis then 2 else 1) + nat \<lceil>w\<rceil> * nat \<lceil>h\<rceil>, e]"
  by (simp add: build_2d_sincos_position_embedding_def Let_def) presburger

lemma build_pos_assert:
  "e mod 4 \<noteq> 0 \<Longrightarrow>
   build_2d_sincos_position_embedding e h w dis = Inl (AssertionError sincos_message)"
  by (simp add: build_2d_sincos_position_embedding_def Let_def)

lemma vit_init_assert:
  "cfg_embed_dim c mod 4 \<noteq> 0 \<Longrightarrow> cfg_img_size c \<noteq> [] \<Longrightarrow> cfg_patch_size c \<noteq> 0 \<Longrightarrow>
   vit_init c = Inl (AssertionError sincos_message)"
  by (cases "cfg_img_size c") (simp_all add: vit_init_def build_pos_assert)



lemma block_init_fields:
  assumes "block_init c = Inr b"
  shows "b_dim b = cfg_embed_dim c" "b_num_heads b = cfg_num_heads c" "cfg_num_heads c \<noteq> 0"
proof -
  from assms show 3: "cfg_num_heads c \<noteq> 0"
    by (simp add: block_init_def split: if_splits)
  from assms have "b = \<lparr>b_dim = cfg_embed_dim c, b_num_heads = cfg_num_heads c,
                b_mlp_hidden = nat \<lfloor>real (cfg_embed_dim c) * cfg_mlp_ratio c\<rfloor>\<rparr>"
    by (simp add: block_init_def split: if_splits)
  then show "b_dim b = cfg_embed_dim c" "b_num_heads b = cfg_num_heads c"
    by simp_all
qed


lemma make_blocks_fields:
  assumes "make_blocks c = Inr bs" "cfg_depth c \<noteq> 0"
  shows "\<exists>b. bs = replicate (cfg_depth c) b \<and> b_dim b = cfg_embed_dim c \<and>
             b_num_heads b = cfg_num_heads c \<and> cfg_num_heads c \<noteq> 0"
proof (cases "block_init c")
  case (Inl e)
  with assms show ?thesis by (simp add: make_blocks_def)
next
  case (Inr b)
  with assms have "bs = replicate (cfg_depth c) b" by (simp add: make_blocks_def)
  with block_init_fields [OF Inr] show ?thesis by blast
qed

lemma vit_init_built:
  assumes "vit_init c = Inr m"
  obtains bs where "cfg_img_size c \<noteq> []" "cfg_patch_size c \<noteq> 0" "cfg_embed_dim c mod 4 = 0"
    "make_blocks c = Inr bs"
    "m = \<lparr>embed_dim = cfg_embed_dim c,
          patch_size = cfg_patch_size c,
          in_chans = cfg_in_chans c,
          blocks = bs,
          norms = replicate (cfg_depth c) (cfg_embed_dim c),
          dis_token = cfg_dis_token c,
          pos_embed = [1, (if cfg_dis_token c then 2 else 1) + grid c * grid c, cfg_embed_dim c],
          proj_weight_requires_grad = False,
          proj_bias_requires_grad = False\<rparr>"
proof (cases "cfg_img_size c")
  case Nil
  with assms show ?thesis by (simp add: vit_init_def)
next
  case (Cons i rest)
  have g: "grid c = nat \<lceil>real i / real (cfg_patch_size c)\<rceil>"
    using Cons by (simp add: grid_def)
  show ?thesis
  proof (cases "cfg_patch_size c = 0")
    case True
    with assms Cons show ?thesis by (simp add: vit_init_def)
  next
    case p: False
    show ?thesis
    proof (cases "cfg_embed_dim c mod 4 = 0")
      case False
      with assms Cons p vit_init_assert [of c] show ?thesis by simp
    next
      case e: True
      note pe = build_pos_ok [OF e, of "real i / real (cfg_patch_size c)"
          "real i / real (cfg_patch_size c)" "cfg_dis_token c"]
      show ?thesis
      proof (cases "make_blocks c")
        case (Inl err)
        with assms Cons p pe show ?thesis by (simp add: vit_init_def)
      next
        case (Inr bs)
        show ?thesis
        proof (cases "cfg_depth c \<noteq> 0 \<and> \<not> cfg_qkv_bias c")
          case True
          with assms Cons p pe Inr show ?thesis by (simp add: vit_init_def)
        next
          case False
          with assms Cons p Inr have M:
            "m = \<lparr>embed_dim = cfg_embed_dim c,
              patch_size = cfg_patch_size c,
              in_chans = cfg_in_chans c,
              blocks = bs,
              norms = replicate (cfg_depth c) (cfg_embed_dim c),
              dis_token = cfg_dis_token c,
              pos_embed = [1, (if cfg_dis_token c then 2 else 1) + grid c * grid c, cfg_embed_dim c],
              proj_weight_requires_grad = False,
              proj_bias_requires_grad = False\<rparr>"
            unfolding g by (auto simp: vit_init_def pe split: if_splits)
          have ne: "cfg_img_size c \<noteq> []" using Cons by simp
          show ?thesis by (rule that [OF ne p e Inr M])
        qed
      qed
    qed
  qed
qed


lemma vit_init_fields:
  assumes "vit_init c = Inr m"
  shows "embed_dim m = cfg_embed_dim c" "patch_size m = cfg_patch_size c"
    "in_chans m = cfg_in_chans c" "dis_token m = cfg_dis_token c"
    "pos_embed m = [1, (if cfg_dis_token c then 2 else 1) + grid c * grid c, cfg_embed_dim c]"
    "norms m = replicate (cfg_depth c) (cfg_embed_dim c)"
    "proj_weight_requires_grad m = False" "proj_bias_requires_grad m = False"
    "cfg_patch_size c \<noteq> 0" "cfg_img_size c \<noteq> []" "cfg_embed_dim c mod 4 = 0"
  using assms by (auto elim!: vit_init_built)

lemma vit_init_blocks:
  assumes "vit_init c = Inr m" "cfg_depth c \<noteq> 0"
  shows "\<exists>b. blocks m = replicate (cfg_depth c) b \<and> b_dim b = cfg_embed_dim c \<and>
             b_num_heads b = cfg_num_heads c \<and> cfg_num_heads c \<noteq> 0"
proof -
  from assms(1) obtain bs where bs: "make_blocks c = Inr bs" and m: "blocks m = bs"
    by (auto elim!: vit_init_built)
  from make_blocks_fields [OF bs assms(2)] m show ?thesis by simp
qed



lemma vit_init_small: "vit_init vit_small = Inr vit_small_model"
  by (simp add: vit_init_def vit_small_def vit_small_model_def build_pos_ok make_blocks_def
      block_init_def)



section \<open>The token sequence\<close>

lemma prepare_tokens_ok:
  assumes init: "vit_init c = Inr m"
    and dv: "cfg_patch_size c dvd H" "cfg_patch_size c dvd W" and pos: "0 < H" "0 < W"
    and grid: "(H div cfg_patch_size c) * (W div cfg_patch_size c) = grid c * grid c"
  shows "prepare_tokens m [B, cfg_in_chans c, H, W] =
           Inr [B, (H div cfg_patch_size c) * (W div cfg_patch_size c) +
                   (if cfg_dis_token c then 2 else 1), cfg_embed_dim c]"
proof -
  let ?p = "cfg_patch_size c"
  note f = vit_init_fields [OF init]
  from f(9) have p: "0 < ?p" by simp
  from dv pos p have ge: "?p \<le> H" "?p \<le> W" by (auto dest: dvd_imp_le)
  have conv: "(n - ?p) div ?p + 1 = n div ?p" if "?p \<le> n" for n
    using that p by (simp add: le_div_geq)
  have "patch_embed_forward m [B, cfg_in_chans c, H, W] =
          Inr [B, ((H - ?p) div ?p + 1) * ((W - ?p) div ?p + 1), cfg_embed_dim c]"
    using ge p by (simp add: patch_embed_forward_def f(1-3))
  then have pe: "patch_embed_forward m [B, cfg_in_chans c, H, W] =
              Inr [B, (H div ?p) * (W div ?p), cfg_embed_dim c]"
    by (simp only: conv [OF ge(1)] conv [OF ge(2)])
  have bd: "broadcast_dim B 1 = Inr B"
    by (simp add: broadcast_dim_def)
  show ?thesis
    using grid by (simp add: prepare_tokens_def pe num_token_def f(4,5) bd broadcast_dim_def add.commute)
qed

text \<open>
  Claim C3, as amended. On a constructed model, an image batch with the configured number
  of channels, height and width positive multiples of the patch size, and a patch grid
  of as many cells as the grid the position embedding was built for (as when height and
  width equal \<open>img_size\<close>) gives a token sequence of length
  \<open>grid_height * grid_width + number of special tokens\<close>, 1 without and 2 with the
  distillation token.
\<close>

theorem prepare_tokens_length:
  assumes "vit_init c = Inr m"
    and "cfg_patch_size c dvd H" and "cfg_patch_size c dvd W" and "0 < H" and "0 < W"
    and "(H div cfg_patch_size c) * (W div cfg_patch_size c) = grid c * grid c"
  shows "prepare_tokens m [B, cfg_in_chans c, H, W] =
           Inr [B, (H div cfg_patch_size c) * (W div cfg_patch_size c) +
                   (if cfg_dis_token c then 2 else 1), cfg_embed_dim c]"
  using assms by (rule prepare_tokens_ok)

theorem prepare_tokens_length_witness:
  "vit_init vit_small = Inr vit_small_model \<and> prepare_tokens vit_small_model [2, 3, 224, 224] = Inr [2, 197, 384]"
proof -
  have d: "cfg_patch_size vit_small dvd 224" by (simp add: vit_small_def)
  have g: "(224 div cfg_patch_size vit_small) * (224 div cfg_patch_size vit_small)
           = grid vit_small * grid vit_small"
    by (simp add: vit_small_def grid_def)
  from prepare_tokens_length [OF vit_init_small d d _ _ g, of 2] vit_init_small
  show ?thesis by (simp add: vit_small_def)
qed

text \<open>
  The claim as stated fails on an image whose sides are multiples of the patch size but
  not the configured size: the position embedding has 197 rows, the tokens of a
  \<open>32 x 32\<close> image are 5, and the addition raises.
\<close>

theorem prepare_tokens_length_counterexample:
  "vit_init vit_small = Inr vit_small_model \<and> (16::nat) dvd 32 \<and>
   prepare_tokens vit_small_model [2, 3, 32, 32] = Inl RuntimeError"
  using vit_init_small
  by (simp add: prepare_tokens_def patch_embed_forward_def vit_small_model_def num_token_def
      broadcast_dim_def)

section \<open>The attention of the last block\<close>

lemma broadcast_add_last:
  assumes "broadcast_add [a, b, e] [a', b', e] = Inr t"
  shows "t \<noteq> [] \<and> last t = e"
proof -
  from assms obtain d0 d1 where "t = [d0, d1, e]"
    by (auto simp: broadcast_dim_def split: sum.splits if_splits)
  then show ?thesis by simp
qed

lemma patch_embed_forward_shape:
  assumes "patch_embed_forward m x = Inr p"
  shows "\<exists>b n. p = [b, n, embed_dim m]"
proof -
  from assms obtain B C H W where x: "x = [B, C, H, W]"
    by (auto simp: patch_embed_forward_def split: list.splits)
  with assms show ?thesis
    by (auto simp: patch_embed_forward_def split: if_splits)
qed

lemma prepare_tokens_last:
  assumes init: "vit_init c = Inr m" and t: "prepare_tokens m x = Inr t"
  shows "t \<noteq> [] \<and> last t = cfg_embed_dim c"
proof -
  note f = vit_init_fields [OF init]
  from t obtain p where p: "patch_embed_forward m x = Inr p"
    by (cases "patch_embed_forward m x") (auto simp: prepare_tokens_def split: list.splits)
  from patch_embed_forward_shape [OF p] obtain b n where pe: "p = [b, n, cfg_embed_dim c]"
    by (auto simp: f(1))
  from t p pe have "broadcast_add [b, num_token m + n, cfg_embed_dim c] (pos_embed m) = Inr t"
    by (auto simp: prepare_tokens_def split: list.splits)
  then show ?thesis
    unfolding f(5) by (rule broadcast_add_last)
qed

lemma block_forward_mismatch:
  assumes "x = [] \<or> last x \<noteq> 2 * b_dim blk"
  shows "block_forward blk x r = Inl RuntimeError"
  using assms by (auto simp: block_forward_def linear_def)

lemma last_selfattention_loop_mismatch:
  assumes "x = [] \<or> last x \<noteq> 2 * b_dim blk"
  shows "last_selfattention_loop (blk # bs) x = Inl RuntimeError"
  using assms by (cases bs) (simp_all add: block_forward_mismatch)

lemma get_last_selfattention_fails:
  assumes init: "vit_init c = Inr m" and e: "0 < cfg_embed_dim c" and d: "0 < cfg_depth c"
    and t: "prepare_tokens m x = Inr t"
  shows "get_last_selfattention m x = Inl RuntimeError"
proof -
  from d have "cfg_depth c \<noteq> 0" by simp
  from vit_init_blocks [OF init this] obtain b where
    bs: "blocks m = replicate (cfg_depth c) b" and bd: "b_dim b = cfg_embed_dim c" by blast
  from d bs obtain rest where r: "blocks m = b # rest"
    by (cases "cfg_depth c") auto
  from prepare_tokens_last [OF init t] e bd have "t = [] \<or> last t \<noteq> 2 * b_dim b" by simp
  then have "last_selfattention_loop (b # rest) t = Inl RuntimeError"
    by (rule last_selfattention_loop_mismatch)
  with t r show ?thesis by (simp add: get_last_selfattention_def)
qed

text \<open>
  Claim C2. \<open>get_last_selfattention\<close> is meant to return the attention matrix of the
  last block. On every constructed model with a positive embedding dimension and at
  least one block it raises instead, for every input: it passes the prepared tokens, of
  last dimension \<open>embed_dim\<close>, to a block whose first layer is
  \<open>nn.Linear(2 * dim, dim)\<close>, without the \<open>torch.cat([x, x], dim=-1)\<close> that \<open>forward\<close>
  performs before each block.
\<close>

theorem get_last_selfattention_raises:
  assumes "vit_init c = Inr m" and "0 < cfg_embed_dim c" and "0 < cfg_depth c"
  shows "(\<exists>e. get_last_selfattention m x = Inl e) \<and>
         (\<forall>t. prepare_tokens m x = Inr t \<longrightarrow> get_last_selfattention m x = Inl RuntimeError)"
proof (cases "prepare_tokens m x")
  case (Inl e)
  then show ?thesis by (simp add: get_last_selfattention_def)
next
  case (Inr t)
  with get_last_selfattention_fails [OF assms Inr] show ?thesis by simp
qed

theorem get_last_selfattention_raises_witness:
  "vit_init vit_small = Inr vit_small_model \<and> 0 < cfg_embed_dim vit_small \<and>
   0 < cfg_depth vit_small \<and>
   prepare_tokens vit_small_model [2, 3, 224, 224] = Inr [2, 197, 384] \<and>
   get_last_selfattention vit_small_model [2, 3, 224, 224] = Inl RuntimeError"
proof -
  have e: "0 < cfg_embed_dim vit_small" and d: "0 < cfg_depth vit_small"
    by (simp_all add: vit_small_def)
  have p: "prepare_tokens vit_small_model [2, 3, 224, 224] = Inr [2, 197, 384]"
    by (simp add: prepare_tokens_def patch_embed_forward_def vit_small_model_def num_token_def
      broadcast_dim_def)
  from get_last_selfattention_raises [OF vit_init_small e d, of "[2, 3, 224, 224]"] p
  have "get_last_selfattention vit_small_model [2, 3, 224, 224] = Inl RuntimeError" by simp
  with vit_init_small e d p show ?thesis by simp
qed

section \<open>The frozen patch projection\<close>



end
